theory Spec2Isabelle
  imports Main
begin

section \<open>The ROS interface used by \<open>persistent_service_client.hpp\<close>\<close>

text \<open>
  The header wraps a \<^verbatim>\<open>ros::ServiceClient\<close> and a \<^verbatim>\<open>ros::NodeHandle\<close>.  Both
  classes belong to roscpp, not to this repository, so they are a parameter of the
  model: a record of functions over a state \<open>'w\<close> of the middleware (master,
  transport, the shared implementation objects behind the handles).  A
  \<^verbatim>\<open>ros::ServiceClient\<close> value is a handle \<open>'c\<close>, a \<^verbatim>\<open>ros::NodeHandle\<close> a handle
  \<open>'nh\<close>, the service object (request and response) a value \<open>'s\<close>.

  The two operations that suspend the calling thread return \<open>None\<close> when they
  never return; the others always return.  The \<^verbatim>\<open>const\<close> methods read the
  middleware state and do not change it.  No operation is modelled as throwing:
  the header has no \<^verbatim>\<open>try\<close> and no \<^verbatim>\<open>throw\<close>, so an exception of roscpp would
  leave every method of the wrapper as it was raised.
\<close>

text \<open>\<^verbatim>\<open>ros::Duration\<close>, as its signed number of nanoseconds.\<close>

type_synonym duration = int

text \<open>\<^verbatim>\<open>ros::Duration(s)\<close> for a whole number of seconds \<open>s\<close>.\<close>

definition Duration :: "int \<Rightarrow> duration" where
  "Duration secs = secs * 1000000000"

record ('w, 'c, 'nh, 's) ros =
  ros_serviceClient :: "'nh \<Rightarrow> string \<Rightarrow> bool \<Rightarrow> 'w \<Rightarrow> 'c \<times> 'w"
  ros_isValid :: "'c \<Rightarrow> 'w \<Rightarrow> bool"
  ros_getService :: "'c \<Rightarrow> 'w \<Rightarrow> string"
  ros_waitForExistence :: "'c \<Rightarrow> duration \<Rightarrow> 'w \<Rightarrow> (bool \<times> 'w) option"
  ros_call :: "'c \<Rightarrow> 's \<Rightarrow> 'w \<Rightarrow> (bool \<times> 's \<times> 'w) option"
  ros_shutdown :: "'c \<Rightarrow> 'w \<Rightarrow> 'w"

text \<open>
  Everything the wrapper does to the outside is recorded, oldest first: each
  method it invokes on a \<^verbatim>\<open>ros::ServiceClient\<close> or on the node handle, and each
  message it hands to \<^verbatim>\<open>ROS_WARN_STREAM\<close>.
\<close>

datatype ('c, 'nh) event =
    IsValid 'c
  | GetService 'c
  | ServiceClient 'nh string bool
  | WaitForExistence 'c duration
  | Call 'c
  | Shutdown 'c
  | Warn string

record ('w, 'c, 'nh) env =
  world :: 'w
  trace :: "('c, 'nh) event list"

text \<open>
  A method either returns a value in a state, or suspends its thread forever in
  a state (the state in which the suspending operation was entered, with that
  operation already recorded).
\<close>

datatype ('a, 'st) outcome = Returns 'a 'st | Blocks 'st

text \<open>The state an outcome ends in, and the value it returns, if any.\<close>

fun state_of :: "('a, 'st) outcome \<Rightarrow> 'st" where
  "state_of (Returns r st) = st"
| "state_of (Blocks st) = st"

fun returned :: "('a, 'st) outcome \<Rightarrow> 'a option" where
  "returned (Returns r st) = Some r"
| "returned (Blocks st) = None"

text \<open>The connections on which an exchange was dispatched, and the diagnostics emitted.\<close>

fun dispatched :: "('c, 'nh) event list \<Rightarrow> 'c list" where
  "dispatched [] = []"
| "dispatched (Call c # evs) = c # dispatched evs"
| "dispatched (ev # evs) = dispatched evs"

fun warnings :: "('c, 'nh) event list \<Rightarrow> string list" where
  "warnings [] = []"
| "warnings (Warn msg # evs) = msg # warnings evs"
| "warnings (ev # evs) = warnings evs"

text \<open>The connections that were opened or waited on.\<close>

fun opened :: "('c, 'nh) event list \<Rightarrow> ('nh \<times> string \<times> bool) list" where
  "opened [] = []"
| "opened (ServiceClient nh name persistent # evs) = (nh, name, persistent) # opened evs"
| "opened (ev # evs) = opened evs"

fun waited :: "('c, 'nh) event list \<Rightarrow> ('c \<times> duration) list" where
  "waited [] = []"
| "waited (WaitForExistence c timeout # evs) = (c, timeout) # waited evs"
| "waited (ev # evs) = waited evs"

subsection \<open>One invocation of each ROS operation\<close>

definition nh_serviceClient ::
  "('w, 'c, 'nh, 's) ros \<Rightarrow> 'nh \<Rightarrow> string \<Rightarrow> bool \<Rightarrow> ('w, 'c, 'nh) env
    \<Rightarrow> 'c \<times> ('w, 'c, 'nh) env" where
  "nh_serviceClient R nh service_name persistent e =
     (let (c, w) = ros_serviceClient R nh service_name persistent (world e)
      in (c, e\<lparr>world := w, trace := trace e @ [ServiceClient nh service_name persistent]\<rparr>))"

definition client_isValid ::
  "('w, 'c, 'nh, 's) ros \<Rightarrow> 'c \<Rightarrow> ('w, 'c, 'nh) env \<Rightarrow> bool \<times> ('w, 'c, 'nh) env" where
  "client_isValid R c e =
     (ros_isValid R c (world e), e\<lparr>trace := trace e @ [IsValid c]\<rparr>)"

definition client_getService ::
  "('w, 'c, 'nh, 's) ros \<Rightarrow> 'c \<Rightarrow> ('w, 'c, 'nh) env \<Rightarrow> string \<times> ('w, 'c, 'nh) env" where
  "client_getService R c e =
     (ros_getService R c (world e), e\<lparr>trace := trace e @ [GetService c]\<rparr>)"

definition client_waitForExistence ::
  "('w, 'c, 'nh, 's) ros \<Rightarrow> 'c \<Rightarrow> duration \<Rightarrow> ('w, 'c, 'nh) env
    \<Rightarrow> (bool, ('w, 'c, 'nh) env) outcome" where
  "client_waitForExistence R c timeout e =
     (let e' = e\<lparr>trace := trace e @ [WaitForExistence c timeout]\<rparr>
      in case ros_waitForExistence R c timeout (world e) of
           None \<Rightarrow> Blocks e'
         | Some (available, w) \<Rightarrow> Returns available (e'\<lparr>world := w\<rparr>))"

definition client_call ::
  "('w, 'c, 'nh, 's) ros \<Rightarrow> 'c \<Rightarrow> 's \<Rightarrow> ('w, 'c, 'nh) env
    \<Rightarrow> (bool \<times> 's, ('w, 'c, 'nh) env) outcome" where
  "client_call R c service e =
     (let e' = e\<lparr>trace := trace e @ [Call c]\<rparr>
      in case ros_call R c service (world e) of
           None \<Rightarrow> Blocks e'
         | Some (ok, service', w) \<Rightarrow> Returns (ok, service') (e'\<lparr>world := w\<rparr>))"

definition client_shutdown ::
  "('w, 'c, 'nh, 's) ros \<Rightarrow> 'c \<Rightarrow> ('w, 'c, 'nh) env \<Rightarrow> ('w, 'c, 'nh) env" where
  "client_shutdown R c e =
     e\<lparr>world := ros_shutdown R c (world e), trace := trace e @ [Shutdown c]\<rparr>"

definition ROS_WARN_STREAM :: "string \<Rightarrow> ('w, 'c, 'nh) env \<Rightarrow> ('w, 'c, 'nh) env" where
  "ROS_WARN_STREAM msg e = e\<lparr>trace := trace e @ [Warn msg]\<rparr>"

section \<open>The class \<open>PersistentServiceClient\<close>\<close>

text \<open>
  The two data members \<^verbatim>\<open>client_\<close> and \<^verbatim>\<open>nh_\<close> (a name cannot end in an
  underscore here).  The class has no other member.  The defaulted constructor,
  which leaves both members as roscpp default-constructs them, is not modelled.
\<close>

record ('c, 'nh) persistent_service_client =
  client :: 'c
  nh :: 'nh

text \<open>
  \<^verbatim>\<open>PersistentServiceClient(ros::NodeHandle nh, const std::string& service_name)\<close>:
  \<^verbatim>\<open>nh_(nh)\<close>, then \<^verbatim>\<open>client_ = nh_.serviceClient<TServiceType>(service_name, true)\<close>.
\<close>

definition PersistentServiceClient ::
  "('w, 'c, 'nh, 's) ros \<Rightarrow> 'nh \<Rightarrow> string \<Rightarrow> ('w, 'c, 'nh) env
    \<Rightarrow> ('c, 'nh) persistent_service_client \<times> ('w, 'c, 'nh) env" where
  "PersistentServiceClient R nh0 service_name e =
     (let (c, e') = nh_serviceClient R nh0 service_name True e
      in (\<lparr>client = c, nh = nh0\<rparr>, e'))"

text \<open>The two diagnostics of \<^verbatim>\<open>call\<close>, as the stream operators assemble them.\<close>

definition lost_connection_msg :: "string \<Rightarrow> string" where
  "lost_connection_msg service_name =
     ''Lost connection to service :'' @ service_name
       @ ''. Trying to reconnect and waiting until available.''"

definition restored_connection_msg :: "string \<Rightarrow> string" where
  "restored_connection_msg service_name = ''Restored connection to '' @ service_name"

text \<open>
  The \<^verbatim>\<open>if (!client_.isValid()) { ... }\<close> statement of \<^verbatim>\<open>call\<close>.
  \<^verbatim>\<open>client_.waitForExistence()\<close> is called without an argument and its result is
  dropped.  The argument roscpp supplies is \<^verbatim>\<open>ros::Duration(-1)\<close>, the default
  that the wrapper's own \<^verbatim>\<open>waitForExistence\<close> repeats in its declaration.
\<close>

definition reconnect_if_invalid ::
  "('w, 'c, 'nh, 's) ros \<Rightarrow> ('c, 'nh) persistent_service_client \<Rightarrow> ('w, 'c, 'nh) env
    \<Rightarrow> (unit, ('c, 'nh) persistent_service_client \<times> ('w, 'c, 'nh) env) outcome" where
  "reconnect_if_invalid R self e =
     (let (valid, e1) = client_isValid R (client self) e
      in if \<not> valid then
           let (service_name, e2) = client_getService R (client self) e1;
               e3 = ROS_WARN_STREAM (lost_connection_msg service_name) e2;
               (c, e4) = nh_serviceClient R (nh self) service_name True e3;
               self' = self\<lparr>client := c\<rparr>
           in case client_waitForExistence R (client self') (Duration (- 1)) e4 of
                Blocks e5 \<Rightarrow> Blocks (self', e5)
              | Returns available e5 \<Rightarrow>
                  Returns () (self', ROS_WARN_STREAM (restored_connection_msg service_name) e5)
         else Returns () (self, e1))"

text \<open>
  The connection that statement opens when the held one reports invalid, and the
  middleware state it is opened in: the operand of the assignment to \<^verbatim>\<open>client_\<close>.
\<close>

definition reopened ::
  "('w, 'c, 'nh, 's) ros \<Rightarrow> ('c, 'nh) persistent_service_client \<Rightarrow> ('w, 'c, 'nh) env
    \<Rightarrow> 'c \<times> 'w" where
  "reopened R self e =
     ros_serviceClient R (nh self) (ros_getService R (client self) (world e)) True (world e)"

text \<open>\<^verbatim>\<open>bool call(TServiceType& service)\<close>: that statement, then \<^verbatim>\<open>return client_.call(service)\<close>.\<close>

definition call ::
  "('w, 'c, 'nh, 's) ros \<Rightarrow> 's \<Rightarrow> ('c, 'nh) persistent_service_client \<Rightarrow> ('w, 'c, 'nh) env
    \<Rightarrow> (bool \<times> 's, ('c, 'nh) persistent_service_client \<times> ('w, 'c, 'nh) env) outcome" where
  "call R service self e =
     (case reconnect_if_invalid R self e of
        Blocks st \<Rightarrow> Blocks st
      | Returns u (self', e') \<Rightarrow>
          (case client_call R (client self') service e' of
             Blocks e'' \<Rightarrow> Blocks (self', e'')
           | Returns r e'' \<Rightarrow> Returns r (self', e'')))"

text \<open>\<^verbatim>\<open>bool waitForExistence(ros::Duration timeout = ros::Duration(-1))\<close>.\<close>

definition waitForExistence ::
  "('w, 'c, 'nh, 's) ros \<Rightarrow> duration \<Rightarrow> ('c, 'nh) persistent_service_client
    \<Rightarrow> ('w, 'c, 'nh) env
    \<Rightarrow> (bool, ('c, 'nh) persistent_service_client \<times> ('w, 'c, 'nh) env) outcome" where
  "waitForExistence R timeout self e =
     (case client_waitForExistence R (client self) timeout e of
        Blocks e' \<Rightarrow> Blocks (self, e')
      | Returns available e' \<Rightarrow> Returns available (self, e'))"

text \<open>\<^verbatim>\<open>bool isValid() const\<close>.\<close>

definition isValid ::
  "('w, 'c, 'nh, 's) ros \<Rightarrow> ('c, 'nh) persistent_service_client \<Rightarrow> ('w, 'c, 'nh) env
    \<Rightarrow> bool \<times> ('w, 'c, 'nh) env" where
  "isValid R self e = client_isValid R (client self) e"

text \<open>\<^verbatim>\<open>void shutdown()\<close>.\<close>

definition shutdown ::
  "('w, 'c, 'nh, 's) ros \<Rightarrow> ('c, 'nh) persistent_service_client \<Rightarrow> ('w, 'c, 'nh) env
    \<Rightarrow> ('c, 'nh) persistent_service_client \<times> ('w, 'c, 'nh) env" where
  "shutdown R self e = (self, client_shutdown R (client self) e)"

text \<open>\<^verbatim>\<open>string getService()\<close>.\<close>

definition getService ::
  "('w, 'c, 'nh, 's) ros \<Rightarrow> ('c, 'nh) persistent_service_client \<Rightarrow> ('w, 'c, 'nh) env
    \<Rightarrow> string \<times> ('w, 'c, 'nh) env" where
  "getService R self e = client_getService R (client self) e"

section \<open>Runs of a caller\<close>

text \<open>
  A caller that invokes \<^verbatim>\<open>call\<close> again and again.  Between two invocations the
  middleware moves on by itself (a server goes down, comes back, a link breaks):
  each request comes with the change \<open>d\<close> that happened since the previous one.
  The run stops where an invocation never returns.
\<close>

fun calls ::
  "('w, 'c, 'nh, 's) ros \<Rightarrow> (('w \<Rightarrow> 'w) \<times> 's) list \<Rightarrow> ('c, 'nh) persistent_service_client
    \<Rightarrow> ('w, 'c, 'nh) env
    \<Rightarrow> (unit, ('c, 'nh) persistent_service_client \<times> ('w, 'c, 'nh) env) outcome" where
  "calls R [] self e = Returns () (self, e)"
| "calls R ((d, service) # rest) self e =
     (case call R service self (e\<lparr>world := d (world e)\<rparr>) of
        Blocks st \<Rightarrow> Blocks st
      | Returns r (self', e') \<Rightarrow> calls R rest self' e')"

section \<open>What the wrapper relies on\<close>

text \<open>
  Modelled from the spec: \<^verbatim>\<open>ros::ServiceClient::getService\<close> is roscpp's; the
  contract of the endpoint name accessor is that it "returns the name the
  connection was opened against".  A connection just opened reports the name it
  was opened with, and neither a wait nor an exchange on a connection changes
  the name it reports.
\<close>

definition names_fixed :: "('w, 'c, 'nh, 's) ros \<Rightarrow> bool" where
  "names_fixed R \<longleftrightarrow>
     (\<forall>nh0 n p w. ros_getService R (fst (ros_serviceClient R nh0 n p w))
                     (snd (ros_serviceClient R nh0 n p w)) = n) \<and>
     (\<forall>c t w available w'. ros_waitForExistence R c t w = Some (available, w')
        \<longrightarrow> ros_getService R c w' = ros_getService R c w) \<and>
     (\<forall>c s w ok s' w'. ros_call R c s w = Some (ok, s', w')
        \<longrightarrow> ros_getService R c w' = ros_getService R c w)"

text \<open>A change of the middleware that renames no connection.\<close>

definition keeps_names :: "('w, 'c, 'nh, 's) ros \<Rightarrow> ('w \<Rightarrow> 'w) \<Rightarrow> bool" where
  "keeps_names R d \<longleftrightarrow> (\<forall>c w. ros_getService R c (d w) = ros_getService R c w)"

text \<open>
  Modelled from the spec: \<^verbatim>\<open>ros::ServiceClient::shutdown\<close> is roscpp's; its
  contract is "releases transport resources; idempotent".
\<close>

definition shutdown_idempotent :: "('w, 'c, 'nh, 's) ros \<Rightarrow> bool" where
  "shutdown_idempotent R \<longleftrightarrow>
     (\<forall>c w. ros_shutdown R c (ros_shutdown R c w) = ros_shutdown R c w)"

section \<open>A simulated transport\<close>

text \<open>
  A small executable middleware on which the wrapper can be run; it stands in
  for roscpp in the concrete runs below and is no part of the header.  Endpoints are
  names; some are advertised now, some will be advertised later (a wait without
  timeout for one of those returns once it is), all others never.  A connection
  records the name it was opened against and whether its link to the server is
  established; its handle is its position in the list of connections.  A link is
  established when the connection is opened while the endpoint is advertised.
  With \<open>connect_on_wait\<close>, a wait that finds the endpoint also establishes the
  link; without it, a connection opened too early stays without a link.
  The service adds one to the request.
\<close>

record sim_conn =
  conn_name :: string
  conn_persistent :: bool
  conn_linked :: bool

record sim_world =
  advertised :: "string list"
  upcoming :: "string list"
  conns :: "sim_conn list"

record increment_srv =
  request :: int
  response :: int

definition sim_conn_of :: "nat \<Rightarrow> sim_world \<Rightarrow> sim_conn option" where
  "sim_conn_of c w = (if c < length (conns w) then Some (conns w ! c) else None)"

definition sim_serviceClient :: "string \<Rightarrow> string \<Rightarrow> bool \<Rightarrow> sim_world \<Rightarrow> nat \<times> sim_world" where
  "sim_serviceClient ns service_name persistent w =
     (length (conns w),
      w\<lparr>conns := conns w @
          [\<lparr>conn_name = service_name, conn_persistent = persistent,
            conn_linked = (service_name \<in> set (advertised w))\<rparr>]\<rparr>)"

definition sim_isValid :: "nat \<Rightarrow> sim_world \<Rightarrow> bool" where
  "sim_isValid c w =
     (case sim_conn_of c w of
        None \<Rightarrow> False
      | Some k \<Rightarrow> conn_linked k \<and> conn_name k \<in> set (advertised w))"

definition sim_getService :: "nat \<Rightarrow> sim_world \<Rightarrow> string" where
  "sim_getService c w = (case sim_conn_of c w of None \<Rightarrow> [] | Some k \<Rightarrow> conn_name k)"

definition sim_link :: "bool \<Rightarrow> nat \<Rightarrow> sim_world \<Rightarrow> sim_world" where
  "sim_link connect_on_wait c w =
     (if connect_on_wait then w\<lparr>conns := (conns w)[c := (conns w ! c)\<lparr>conn_linked := True\<rparr>]\<rparr>
      else w)"

definition sim_waitForExistence ::
  "bool \<Rightarrow> nat \<Rightarrow> duration \<Rightarrow> sim_world \<Rightarrow> (bool \<times> sim_world) option" where
  "sim_waitForExistence connect_on_wait c timeout w =
     (case sim_conn_of c w of
        None \<Rightarrow> if timeout < 0 then None else Some (False, w)
      | Some k \<Rightarrow>
          if conn_name k \<in> set (advertised w) then Some (True, sim_link connect_on_wait c w)
          else if timeout < 0 then
            (if conn_name k \<in> set (upcoming w) then
               Some (True, sim_link connect_on_wait c
                  (w\<lparr>advertised := conn_name k # advertised w,
                     upcoming := removeAll (conn_name k) (upcoming w)\<rparr>))
             else None)
          else Some (False, w))"

definition sim_call ::
  "nat \<Rightarrow> increment_srv \<Rightarrow> sim_world \<Rightarrow> (bool \<times> increment_srv \<times> sim_world) option" where
  "sim_call c service w =
     (if sim_isValid c w then Some (True, service\<lparr>response := request service + 1\<rparr>, w)
      else Some (False, service, w))"

definition sim_shutdown :: "nat \<Rightarrow> sim_world \<Rightarrow> sim_world" where
  "sim_shutdown c w =
     (if c < length (conns w) then w\<lparr>conns := (conns w)[c := (conns w ! c)\<lparr>conn_linked := False\<rparr>]\<rparr>
      else w)"

definition sim_ros :: "bool \<Rightarrow> (sim_world, nat, string, increment_srv) ros" where
  "sim_ros connect_on_wait =
     \<lparr>ros_serviceClient = sim_serviceClient,
      ros_isValid = sim_isValid,
      ros_getService = sim_getService,
      ros_waitForExistence = sim_waitForExistence connect_on_wait,
      ros_call = sim_call,
      ros_shutdown = sim_shutdown\<rparr>"

text \<open>A middleware state from its parts, and the state of a process that has done nothing yet.\<close>

definition sim_state :: "string list \<Rightarrow> string list \<Rightarrow> sim_conn list \<Rightarrow> (sim_world, nat, string) env" where
  "sim_state up later cs =
     \<lparr>world = \<lparr>advertised = up, upcoming = later, conns = cs\<rparr>, trace = []\<rparr>"

text \<open>
  The server of an endpoint restarts: the links to the old server are gone, the
  endpoint is advertised again.
\<close>

definition server_restart :: "string \<Rightarrow> sim_world \<Rightarrow> sim_world" where
  "server_restart service_name w =
     w\<lparr>advertised := service_name # removeAll service_name (advertised w),
       conns := map (\<lambda>k. if conn_name k = service_name then k\<lparr>conn_linked := False\<rparr> else k)
                  (conns w)\<rparr>"

text \<open>
  Pieces of concrete runs: a connection to endpoint \<open>E\<close> without and with an
  established link, a client object holding connection \<open>c\<close>, and a request.
\<close>

definition stale_conn :: sim_conn where
  "stale_conn = \<lparr>conn_name = ''E'', conn_persistent = True, conn_linked = False\<rparr>"

definition live_conn :: sim_conn where
  "live_conn = \<lparr>conn_name = ''E'', conn_persistent = True, conn_linked = True\<rparr>"

definition holding :: "nat \<Rightarrow> (nat, string) persistent_service_client" where
  "holding c = \<lparr>client = c, nh = ''/robot''\<rparr>"

definition request41 :: increment_srv where
  "request41 = \<lparr>request = 41, response = 0\<rparr>"

section \<open>Basic facts\<close>

lemma Duration_minus_one_negative: "Duration (- 1) < 0"
  by (simp add: Duration_def)

lemma dispatched_append: "dispatched (xs @ ys) = dispatched xs @ dispatched ys"
  by (induction xs rule: dispatched.induct) simp_all

lemma warnings_append: "warnings (xs @ ys) = warnings xs @ warnings ys"
  by (induction xs rule: warnings.induct) simp_all

lemma opened_append: "opened (xs @ ys) = opened xs @ opened ys"
  by (induction xs rule: opened.induct) simp_all

lemma waited_append: "waited (xs @ ys) = waited xs @ waited ys"
  by (induction xs rule: waited.induct) simp_all

lemmas ros_step_defs =
  nh_serviceClient_def client_isValid_def client_getService_def
  client_waitForExistence_def client_call_def client_shutdown_def ROS_WARN_STREAM_def

text \<open>The \<^verbatim>\<open>if\<close> statement of \<^verbatim>\<open>call\<close> on each of its two paths.\<close>

lemma reconnect_valid:
  assumes "ros_isValid R (client self) (world e)"
  shows "reconnect_if_invalid R self e =
           Returns () (self, e\<lparr>trace := trace e @ [IsValid (client self)]\<rparr>)"
  using assms by (simp add: reconnect_if_invalid_def client_isValid_def)

lemma reconnect_invalid:
  assumes "\<not> ros_isValid R (client self) (world e)"
  shows "reconnect_if_invalid R self e =
    (let service_name = ros_getService R (client self) (world e);
         new = ros_serviceClient R (nh self) service_name True (world e);
         steps = [IsValid (client self), GetService (client self),
                  Warn (lost_connection_msg service_name),
                  ServiceClient (nh self) service_name True,
                  WaitForExistence (fst new) (Duration (- 1))]
     in case ros_waitForExistence R (fst new) (Duration (- 1)) (snd new) of
          None \<Rightarrow> Blocks (self\<lparr>client := fst new\<rparr>, \<lparr>world = snd new, trace = trace e @ steps\<rparr>)
        | Some (available, w) \<Rightarrow>
            Returns () (self\<lparr>client := fst new\<rparr>,
              \<lparr>world = w, trace = trace e @ steps @ [Warn (restored_connection_msg service_name)]\<rparr>))"
  using assms
  by (simp add: reconnect_if_invalid_def ros_step_defs Let_def split_beta split: option.splits)

section \<open>The simulated transport meets the contracts\<close>

lemmas sim_defs =
  sim_ros_def sim_state_def sim_conn_of_def sim_serviceClient_def sim_isValid_def
  sim_getService_def sim_link_def sim_waitForExistence_def sim_call_def sim_shutdown_def
  stale_conn_def live_conn_def holding_def request41_def Duration_def
  lost_connection_msg_def restored_connection_msg_def server_restart_def

lemma sim_names_fixed: "names_fixed (sim_ros b)"
  unfolding names_fixed_def
  by (auto simp add: sim_ros_def sim_conn_of_def sim_serviceClient_def sim_getService_def
      sim_link_def sim_waitForExistence_def sim_call_def nth_append
      split: if_splits option.splits)

lemma sim_shutdown_idempotent: "shutdown_idempotent (sim_ros b)"
  unfolding shutdown_idempotent_def
  by (simp add: sim_ros_def sim_shutdown_def)

lemma sim_restart_keeps_names: "keeps_names (sim_ros b) (server_restart n)"
  unfolding keeps_names_def
  by (simp add: sim_ros_def sim_getService_def sim_conn_of_def server_restart_def)

lemma id_keeps_names: "keeps_names R id"
  by (simp add: keeps_names_def)

section \<open>The reconnect path of \<open>call\<close>\<close>

text \<open>
  Claim C1.  When the held connection reports invalid, \<^verbatim>\<open>call\<close> does the
  following and nothing else, in this order: it queries validity, reads the
  endpoint name from the held connection, emits the diagnostic "Lost connection
  to service :", that name, ". Trying to reconnect and waiting until
  available.", asks the node handle for a persistent connection to that name
  and makes it the held connection (no operation is invoked on the old one),
  waits on the new connection with \<^verbatim>\<open>ros::Duration(-1)\<close>, emits the diagnostic
  "Restored connection to " and that name, and dispatches the exchange on the
  new connection.  If the wait never returns, the invocation stays suspended
  after its fifth step.
\<close>

theorem call_reconnect_steps:
  assumes "\<not> ros_isValid R (client self) (world e)"
  shows "call R service self e =
    (let service_name = ros_getService R (client self) (world e);
         new = ros_serviceClient R (nh self) service_name True (world e);
         self' = self\<lparr>client := fst new\<rparr>;
         steps = [IsValid (client self), GetService (client self),
                  Warn (''Lost connection to service :'' @ service_name
                          @ ''. Trying to reconnect and waiting until available.''),
                  ServiceClient (nh self) service_name True,
                  WaitForExistence (fst new) (Duration (- 1))];
         steps' = steps @ [Warn (''Restored connection to '' @ service_name),
                           Call (client self')]
     in case ros_waitForExistence R (fst new) (Duration (- 1)) (snd new) of
          None \<Rightarrow> Blocks (self', \<lparr>world = snd new, trace = trace e @ steps\<rparr>)
        | Some (available, w) \<Rightarrow>
            (case ros_call R (client self') service w of
               None \<Rightarrow> Blocks (self', \<lparr>world = w, trace = trace e @ steps'\<rparr>)
             | Some (ok, service', w') \<Rightarrow>
                 Returns (ok, service') (self', \<lparr>world = w', trace = trace e @ steps'\<rparr>)))"
  using assms
  by (simp add: call_def reconnect_invalid client_call_def Let_def
      lost_connection_msg_def restored_connection_msg_def split: option.splits)

text \<open>
  On the simulated transport that connects on wait: the server of \<open>E\<close> is down
  and comes back later; the call reconnects and succeeds.
\<close>

theorem call_reconnect_steps_witness:
  "\<not> ros_isValid (sim_ros True) (client (holding 0)) (world (sim_state [] [''E''] [stale_conn])) \<and>
   call (sim_ros True) request41 (holding 0) (sim_state [] [''E''] [stale_conn]) =
     Returns (True, \<lparr>request = 41, response = 42\<rparr>)
       (holding 1,
        \<lparr>world = \<lparr>advertised = [''E''], upcoming = [], conns = [stale_conn, live_conn]\<rparr>,
         trace = [IsValid 0, GetService 0,
           Warn ''Lost connection to service :E. Trying to reconnect and waiting until available.'',
           ServiceClient ''/robot'' ''E'' True, WaitForExistence 1 (Duration (- 1)),
           Warn ''Restored connection to E'', Call 1]\<rparr>)"
  using call_reconnect_steps [of "sim_ros True" "holding 0" "sim_state [] [''E''] [stale_conn]" request41]
  by (simp add: sim_defs Let_def)

section \<open>The direct path of \<open>call\<close>\<close>

text \<open>
  Claim C6.  When the held connection reports valid, \<^verbatim>\<open>call\<close> queries validity
  and dispatches the exchange on the held connection, and does nothing else:
  the client object is unchanged, no connection is opened, nothing is waited
  for and no diagnostic is emitted.  What the exchange reports is what \<^verbatim>\<open>call\<close>
  returns: when the exchange succeeds, \<open>True\<close> with the service object the
  exchange filled in.
\<close>

theorem call_on_valid_connection:
  assumes "ros_isValid R (client self) (world e)"
  shows "call R service self e =
    (let steps = [IsValid (client self), Call (client self)]
     in case ros_call R (client self) service (world e) of
          None \<Rightarrow> Blocks (self, \<lparr>world = world e, trace = trace e @ steps\<rparr>)
        | Some (ok, service', w) \<Rightarrow>
            Returns (ok, service') (self, \<lparr>world = w, trace = trace e @ steps\<rparr>)) \<and>
    fst (state_of (call R service self e)) = self \<and>
    opened (trace (snd (state_of (call R service self e)))) = opened (trace e) \<and>
    waited (trace (snd (state_of (call R service self e)))) = waited (trace e) \<and>
    warnings (trace (snd (state_of (call R service self e)))) = warnings (trace e)"
  using assms
  by (simp add: call_def reconnect_valid client_call_def Let_def
      opened_append waited_append warnings_append split: option.splits)

theorem call_on_valid_connection_witness:
  "ros_isValid (sim_ros False) (client (holding 0)) (world (sim_state [''E''] [] [live_conn])) \<and>
   call (sim_ros False) request41 (holding 0) (sim_state [''E''] [] [live_conn]) =
     Returns (True, \<lparr>request = 41, response = 42\<rparr>)
       (holding 0,
        \<lparr>world = \<lparr>advertised = [''E''], upcoming = [], conns = [live_conn]\<rparr>,
         trace = [IsValid 0, Call 0]\<rparr>)"
  using call_on_valid_connection [of "sim_ros False" "holding 0" "sim_state [''E''] [] [live_conn]" request41]
  by (simp add: sim_defs Let_def)

section \<open>\<open>waitForExistence\<close>\<close>

text \<open>
  Claim C7.  \<^verbatim>\<open>waitForExistence(timeout)\<close> is one wait of the held connection
  with the caller's timeout: it returns exactly when that wait returns, with
  the flag the wait reports, and stays suspended when the wait never returns.
  The client object is the same afterwards, the same connection is held, and no
  connection is opened.  (How long the wait lasts for a given timeout, and that
  a negative one never times out, is the behaviour of
  \<^verbatim>\<open>ros::ServiceClient::waitForExistence\<close>, to which the timeout is passed
  unchanged.)
\<close>

theorem waitForExistence_only_waits:
  "fst (state_of (waitForExistence R timeout self e)) = self \<and>
   trace (snd (state_of (waitForExistence R timeout self e))) =
     trace e @ [WaitForExistence (client self) timeout] \<and>
   returned (waitForExistence R timeout self e) =
     map_option fst (ros_waitForExistence R (client self) timeout (world e)) \<and>
   world (snd (state_of (waitForExistence R timeout self e))) =
     (case ros_waitForExistence R (client self) timeout (world e) of
        None \<Rightarrow> world e | Some (available, w) \<Rightarrow> w)"
  by (simp add: waitForExistence_def client_waitForExistence_def Let_def split: option.splits)

text \<open>
  A wait of 100 ms for an endpoint that is not up reports \<open>False\<close>, and the
  client still holds connection 0.
\<close>

theorem waitForExistence_only_waits_witness:
  "fst (state_of (waitForExistence (sim_ros False) 100000000 (holding 0)
      (sim_state [] [''E''] [stale_conn]))) = holding 0 \<and>
   trace (snd (state_of (waitForExistence (sim_ros False) 100000000 (holding 0)
      (sim_state [] [''E''] [stale_conn])))) = [WaitForExistence 0 100000000] \<and>
   returned (waitForExistence (sim_ros False) 100000000 (holding 0)
      (sim_state [] [''E''] [stale_conn])) = Some False \<and>
   world (snd (state_of (waitForExistence (sim_ros False) 100000000 (holding 0)
      (sim_state [] [''E''] [stale_conn])))) =
     \<lparr>advertised = [], upcoming = [''E''], conns = [stale_conn]\<rparr>"
  using waitForExistence_only_waits
    [of "sim_ros False" 100000000 "holding 0" "sim_state [] [''E''] [stale_conn]"]
  by (simp add: sim_defs)

section \<open>Validity of the connection an exchange is dispatched on\<close>

text \<open>
  Claim C2: the exchange is never dispatched while the held connection reports
  invalid, and after the wait of the reconnect path the connection dispatched
  on reports valid.  The comment of \<^verbatim>\<open>call\<close> says the same: it "calls the
  service if the connection is or becomes valid".  The header opens the
  replacement before it waits, does not query validity after the wait and drops
  the wait's result.  Here the server of \<open>E\<close> is down when \<^verbatim>\<open>call\<close> starts and
  comes up later, on the simulated transport that does not connect on wait: the
  replacement connection 1 is opened without a link, the wait returns when \<open>E\<close>
  is advertised, "Restored connection to E" is emitted, and the exchange is
  dispatched on connection 1, which reports invalid in the state it is
  dispatched in; \<^verbatim>\<open>call\<close> returns \<open>False\<close>.
\<close>

theorem call_dispatches_on_invalid_connection:
  "reconnect_if_invalid (sim_ros False) (holding 0) (sim_state [] [''E''] [stale_conn]) =
     Returns () (holding 1,
       \<lparr>world = \<lparr>advertised = [''E''], upcoming = [], conns = [stale_conn, stale_conn]\<rparr>,
        trace = [IsValid 0, GetService 0,
          Warn ''Lost connection to service :E. Trying to reconnect and waiting until available.'',
          ServiceClient ''/robot'' ''E'' True, WaitForExistence 1 (Duration (- 1)),
          Warn ''Restored connection to E'']\<rparr>) \<and>
   \<not> ros_isValid (sim_ros False) (client (holding 1))
       \<lparr>advertised = [''E''], upcoming = [], conns = [stale_conn, stale_conn]\<rparr> \<and>
   call (sim_ros False) request41 (holding 0) (sim_state [] [''E''] [stale_conn]) =
     Returns (False, request41) (holding 1,
       \<lparr>world = \<lparr>advertised = [''E''], upcoming = [], conns = [stale_conn, stale_conn]\<rparr>,
        trace = [IsValid 0, GetService 0,
          Warn ''Lost connection to service :E. Trying to reconnect and waiting until available.'',
          ServiceClient ''/robot'' ''E'' True, WaitForExistence 1 (Duration (- 1)),
          Warn ''Restored connection to E'', Call 1]\<rparr>)"
  by (simp add: call_def reconnect_if_invalid_def ros_step_defs sim_defs Let_def)

section \<open>The endpoint name across reconnects\<close>

text \<open>
  The class keeps no copy of the endpoint name: \<^verbatim>\<open>getService\<close> asks the held
  connection, and the reconnect path opens the replacement under the name the
  old connection reports.  With the contract of the name accessor, one
  invocation of \<^verbatim>\<open>call\<close> that returns leaves the reported name as it was, on
  either path.
\<close>

lemma call_keeps_name:
  assumes nf: "names_fixed R"
    and ret: "call R service self e = Returns r (self', e')"
  shows "ros_getService R (client self') (world e') = ros_getService R (client self) (world e)"
proof (cases "ros_isValid R (client self) (world e)")
  case True
  with ret obtain ok s' where
    "ros_call R (client self) service (world e) = Some (ok, s', world e')" "self' = self"
    by (auto simp add: call_def reconnect_valid client_call_def Let_def split: option.splits)
  with nf show ?thesis
    unfolding names_fixed_def by blast
next
  case False
  define n where "n = ros_getService R (client self) (world e)"
  define new where "new = ros_serviceClient R (nh self) n True (world e)"
  from False ret obtain available w ok s' where
    wait: "ros_waitForExistence R (fst new) (Duration (- 1)) (snd new) = Some (available, w)"
    and exch: "ros_call R (fst new) service w = Some (ok, s', world e')"
    and self': "client self' = fst new"
    by (auto simp add: call_def reconnect_invalid client_call_def Let_def n_def new_def
        split: option.splits)
  from nf have "ros_getService R (fst new) (snd new) = n"
    unfolding names_fixed_def new_def by blast
  moreover from nf wait have "ros_getService R (fst new) w = ros_getService R (fst new) (snd new)"
    unfolding names_fixed_def by blast
  moreover from nf exch have "ros_getService R (fst new) (world e') = ros_getService R (fst new) w"
    unfolding names_fixed_def by blast
  ultimately show ?thesis
    using self' by (simp add: n_def)
qed

lemma calls_keep_name:
  assumes "names_fixed R" and "\<forall>x \<in> set ops. keeps_names R (fst x)"
    and "calls R ops self e = Returns u (self', e')"
  shows "ros_getService R (client self') (world e') = ros_getService R (client self) (world e)"
  using assms(2,3)
proof (induction ops arbitrary: self e)
  case Nil
  then show ?case by simp
next
  case (Cons x ops)
  obtain d service where x: "x = (d, service)" by (cases x)
  from Cons.prems(2) x obtain r self1 e1 where
    first: "call R service self (e\<lparr>world := d (world e)\<rparr>) = Returns r (self1, e1)"
    and rest: "calls R ops self1 e1 = Returns u (self', e')"
    by (auto split: outcome.splits)
  from Cons.prems(1) x have d: "keeps_names R d" by simp
  have "ros_getService R (client self') (world e') = ros_getService R (client self1) (world e1)"
    using Cons.IH rest Cons.prems(1) by simp
  also have "\<dots> = ros_getService R (client self) (d (world e))"
    using call_keeps_name [OF assms(1) first] by simp
  also have "\<dots> = ros_getService R (client self) (world e)"
    using d by (simp add: keeps_names_def)
  finally show ?case .
qed

lemma constructed_name:
  assumes "names_fixed R" and "PersistentServiceClient R nh0 n e0 = (self, e)"
  shows "ros_getService R (client self) (world e) = n"
proof -
  from assms(2) have "client self = fst (ros_serviceClient R nh0 n True (world e0))"
    and "world e = snd (ros_serviceClient R nh0 n True (world e0))"
    by (auto simp add: PersistentServiceClient_def nh_serviceClient_def split_beta Let_def)
  with assms(1) show ?thesis
    unfolding names_fixed_def by simp
qed

text \<open>
  Claim C3.  On a transport that meets the contract of the name accessor, and
  with changes of the middleware between the invocations that rename no
  connection: after any number of invocations of \<^verbatim>\<open>call\<close>, with any number of
  reconnects among them, \<^verbatim>\<open>getService\<close> returns the name it returned before;
  for a client made by the constructor with a name, that is this name.
\<close>

theorem reconnects_keep_endpoint_name:
  assumes "names_fixed R" and "\<forall>x \<in> set ops. keeps_names R (fst x)"
    and "calls R ops self e = Returns u (self', e')"
  shows "fst (getService R self' e') = fst (getService R self e) \<and>
         (PersistentServiceClient R nh0 n e0 = (self, e) \<longrightarrow> fst (getService R self' e') = n)"
  using calls_keep_name [OF assms] constructed_name [OF assms(1)]
  by (auto simp add: getService_def client_getService_def)

text \<open>
  A client is constructed for \<open>E\<close> and calls once; the server restarts; the
  second call reconnects (connection 1 replaces connection 0), and the name is
  still \<open>E\<close>.
\<close>

theorem reconnects_keep_endpoint_name_witness:
  "names_fixed (sim_ros True) \<and>
   keeps_names (sim_ros True) id \<and> keeps_names (sim_ros True) (server_restart ''E'') \<and>
   PersistentServiceClient (sim_ros True) ''/robot'' ''E'' (sim_state [''E''] [] []) =
     (holding 0, \<lparr>world = \<lparr>advertised = [''E''], upcoming = [], conns = [live_conn]\<rparr>,
                  trace = [ServiceClient ''/robot'' ''E'' True]\<rparr>) \<and>
   calls (sim_ros True) [(id, request41), (server_restart ''E'', request41)] (holding 0)
       \<lparr>world = \<lparr>advertised = [''E''], upcoming = [], conns = [live_conn]\<rparr>,
        trace = [ServiceClient ''/robot'' ''E'' True]\<rparr> =
     Returns () (holding 1,
       \<lparr>world = \<lparr>advertised = [''E''], upcoming = [], conns = [stale_conn, live_conn]\<rparr>,
        trace = [ServiceClient ''/robot'' ''E'' True, IsValid 0, Call 0, IsValid 0, GetService 0,
          Warn ''Lost connection to service :E. Trying to reconnect and waiting until available.'',
          ServiceClient ''/robot'' ''E'' True, WaitForExistence 1 (Duration (- 1)),
          Warn ''Restored connection to E'', Call 1]\<rparr>) \<and>
   fst (getService (sim_ros True) (holding 1)
       \<lparr>world = \<lparr>advertised = [''E''], upcoming = [], conns = [stale_conn, live_conn]\<rparr>,
        trace = [ServiceClient ''/robot'' ''E'' True, IsValid 0, Call 0, IsValid 0, GetService 0,
          Warn ''Lost connection to service :E. Trying to reconnect and waiting until available.'',
          ServiceClient ''/robot'' ''E'' True, WaitForExistence 1 (Duration (- 1)),
          Warn ''Restored connection to E'', Call 1]\<rparr>) = ''E''"
proof -
  let ?R = "sim_ros True"
  let ?e = "\<lparr>world = \<lparr>advertised = [''E''], upcoming = [], conns = [live_conn]\<rparr>,
        trace = [ServiceClient ''/robot'' ''E'' True]\<rparr> :: (sim_world, nat, string) env"
  let ?e' = "\<lparr>world = \<lparr>advertised = [''E''], upcoming = [], conns = [stale_conn, live_conn]\<rparr>,
        trace = [ServiceClient ''/robot'' ''E'' True, IsValid 0, Call 0, IsValid 0, GetService 0,
          Warn ''Lost connection to service :E. Trying to reconnect and waiting until available.'',
          ServiceClient ''/robot'' ''E'' True, WaitForExistence 1 (Duration (- 1)),
          Warn ''Restored connection to E'', Call 1]\<rparr> :: (sim_world, nat, string) env"
  have ops: "\<forall>x \<in> set [(id, request41), (server_restart ''E'', request41)].
      keeps_names ?R (fst x)"
    by (simp add: id_keeps_names sim_restart_keeps_names)
  have ctor: "PersistentServiceClient ?R ''/robot'' ''E'' (sim_state [''E''] [] []) = (holding 0, ?e)"
    by (simp add: PersistentServiceClient_def nh_serviceClient_def sim_defs)
  have run: "calls ?R [(id, request41), (server_restart ''E'', request41)] (holding 0) ?e =
      Returns () (holding 1, ?e')"
    by (simp add: call_def reconnect_if_invalid_def ros_step_defs sim_defs Let_def)
  from conjunct2 [OF reconnects_keep_endpoint_name [OF sim_names_fixed ops run]] ctor
  have "fst (getService ?R (holding 1) ?e') = ''E''" by (rule mp)
  with ctor run show ?thesis
    by (simp add: sim_names_fixed id_keeps_names sim_restart_keeps_names)
qed

section \<open>An endpoint that never becomes available\<close>

text \<open>
  Claim C4.  When the held connection reports invalid and the wait without
  timeout on the replacement connection never returns (the endpoint never
  becomes available), \<^verbatim>\<open>call\<close> never returns: it stays suspended in that wait,
  holding the replacement connection, having emitted the first diagnostic only
  and dispatched nothing; it produces no value, so no error value either.  The
  timeout it waits with is \<^verbatim>\<open>ros::Duration(-1)\<close>, a negative one.
\<close>

theorem call_blocks_while_never_available:
  assumes "\<not> ros_isValid R (client self) (world e)"
    and "ros_waitForExistence R (fst (reopened R self e)) (Duration (- 1))
           (snd (reopened R self e)) = None"
  shows "call R service self e =
           Blocks (self\<lparr>client := fst (reopened R self e)\<rparr>,
             \<lparr>world = snd (reopened R self e),
              trace = trace e @
                [IsValid (client self), GetService (client self),
                 Warn (lost_connection_msg (ros_getService R (client self) (world e))),
                 ServiceClient (nh self) (ros_getService R (client self) (world e)) True,
                 WaitForExistence (fst (reopened R self e)) (Duration (- 1))]\<rparr>) \<and>
         returned (call R service self e) = None \<and>
         dispatched (trace (snd (state_of (call R service self e)))) = dispatched (trace e) \<and>
         Duration (- 1) < 0"
  using assms
  by (simp add: call_def reconnect_invalid reopened_def Let_def dispatched_append
      Duration_minus_one_negative)

text \<open>The endpoint \<open>E\<close> is not advertised and never will be.\<close>

theorem call_blocks_while_never_available_witness:
  "\<not> ros_isValid (sim_ros True) (client (holding 0)) (world (sim_state [] [] [stale_conn])) \<and>
   ros_waitForExistence (sim_ros True)
       (fst (reopened (sim_ros True) (holding 0) (sim_state [] [] [stale_conn])))
       (Duration (- 1))
       (snd (reopened (sim_ros True) (holding 0) (sim_state [] [] [stale_conn]))) = None \<and>
   call (sim_ros True) request41 (holding 0) (sim_state [] [] [stale_conn]) =
     Blocks (holding 1,
       \<lparr>world = \<lparr>advertised = [], upcoming = [], conns = [stale_conn, stale_conn]\<rparr>,
        trace = [IsValid 0, GetService 0,
          Warn ''Lost connection to service :E. Trying to reconnect and waiting until available.'',
          ServiceClient ''/robot'' ''E'' True, WaitForExistence 1 (Duration (- 1))]\<rparr>) \<and>
   returned (call (sim_ros True) request41 (holding 0) (sim_state [] [] [stale_conn])) = None"
proof -
  have invalid: "\<not> ros_isValid (sim_ros True) (client (holding 0))
      (world (sim_state [] [] [stale_conn]))"
    by (simp add: sim_defs)
  have never: "ros_waitForExistence (sim_ros True)
       (fst (reopened (sim_ros True) (holding 0) (sim_state [] [] [stale_conn])))
       (Duration (- 1))
       (snd (reopened (sim_ros True) (holding 0) (sim_state [] [] [stale_conn]))) = None"
    by (simp add: reopened_def sim_defs)
  from call_blocks_while_never_available [OF invalid never, of request41] invalid never
  show ?thesis
    by (simp add: reopened_def sim_defs)
qed

section \<open>The result of \<open>call\<close>\<close>

text \<open>
  The \<^verbatim>\<open>if\<close> statement of \<^verbatim>\<open>call\<close> dispatches nothing.
\<close>

lemma reconnect_dispatches_nothing:
  assumes "reconnect_if_invalid R self e = Returns u (self', e1)"
  shows "dispatched (trace e1) = dispatched (trace e)"
proof (cases "ros_isValid R (client self) (world e)")
  case True
  with assms show ?thesis
    by (auto simp add: reconnect_valid dispatched_append)
next
  case False
  with assms show ?thesis
    by (auto simp add: reconnect_invalid Let_def dispatched_append split: option.splits)
qed

text \<open>
  Claim C5.  Once the \<^verbatim>\<open>if\<close> statement of \<^verbatim>\<open>call\<close> is left, \<^verbatim>\<open>call\<close> dispatches
  one exchange on the held connection and does what that exchange does: when
  the exchange reports a flag, \<^verbatim>\<open>call\<close> returns, with exactly this flag (\<open>True\<close>
  for success, \<open>False\<close> for failure) and the service object the exchange left;
  when the exchange never returns, neither does \<^verbatim>\<open>call\<close>.  In both cases this
  invocation has dispatched that one exchange and no other: a failed exchange
  is not tried again.
\<close>

theorem call_returns_the_exchange_flag:
  assumes "reconnect_if_invalid R self e = Returns u (self', e1)"
  shows "call R service self e =
           (case ros_call R (client self') service (world e1) of
              None \<Rightarrow>
                Blocks (self', \<lparr>world = world e1, trace = trace e1 @ [Call (client self')]\<rparr>)
            | Some (ok, service', w') \<Rightarrow>
                Returns (ok, service')
                  (self', \<lparr>world = w', trace = trace e1 @ [Call (client self')]\<rparr>)) \<and>
         dispatched (trace (snd (state_of (call R service self e)))) =
           dispatched (trace e) @ [client self']"
  using assms reconnect_dispatches_nothing [OF assms]
  by (simp add: call_def client_call_def Let_def dispatched_append split: option.splits)

text \<open>
  Two runs.  The exchange succeeds on a valid connection: \<^verbatim>\<open>call\<close> returns
  \<open>True\<close> and the response.  The exchange fails after a reconnect (the
  replacement connection has no link): \<^verbatim>\<open>call\<close> returns \<open>False\<close>.  One dispatch
  each.
\<close>

theorem call_returns_the_exchange_flag_witness:
  "reconnect_if_invalid (sim_ros False) (holding 0) (sim_state [''E''] [] [live_conn]) =
     Returns () (holding 0,
       \<lparr>world = \<lparr>advertised = [''E''], upcoming = [], conns = [live_conn]\<rparr>,
        trace = [IsValid 0]\<rparr>) \<and>
   call (sim_ros False) request41 (holding 0) (sim_state [''E''] [] [live_conn]) =
     Returns (True, \<lparr>request = 41, response = 42\<rparr>) (holding 0,
       \<lparr>world = \<lparr>advertised = [''E''], upcoming = [], conns = [live_conn]\<rparr>,
        trace = [IsValid 0, Call 0]\<rparr>) \<and>
   dispatched (trace (snd (state_of
     (call (sim_ros False) request41 (holding 0) (sim_state [''E''] [] [live_conn]))))) = [0] \<and>
   reconnect_if_invalid (sim_ros False) (holding 0) (sim_state [] [''E''] [stale_conn]) =
     Returns () (holding 1,
       \<lparr>world = \<lparr>advertised = [''E''], upcoming = [], conns = [stale_conn, stale_conn]\<rparr>,
        trace = [IsValid 0, GetService 0,
          Warn ''Lost connection to service :E. Trying to reconnect and waiting until available.'',
          ServiceClient ''/robot'' ''E'' True, WaitForExistence 1 (Duration (- 1)),
          Warn ''Restored connection to E'']\<rparr>) \<and>
   call (sim_ros False) request41 (holding 0) (sim_state [] [''E''] [stale_conn]) =
     Returns (False, request41) (holding 1,
       \<lparr>world = \<lparr>advertised = [''E''], upcoming = [], conns = [stale_conn, stale_conn]\<rparr>,
        trace = [IsValid 0, GetService 0,
          Warn ''Lost connection to service :E. Trying to reconnect and waiting until available.'',
          ServiceClient ''/robot'' ''E'' True, WaitForExistence 1 (Duration (- 1)),
          Warn ''Restored connection to E'', Call 1]\<rparr>) \<and>
   dispatched (trace (snd (state_of
     (call (sim_ros False) request41 (holding 0) (sim_state [] [''E''] [stale_conn]))))) = [1]"
proof -
  have ok: "reconnect_if_invalid (sim_ros False) (holding 0) (sim_state [''E''] [] [live_conn]) =
     Returns () (holding 0,
       \<lparr>world = \<lparr>advertised = [''E''], upcoming = [], conns = [live_conn]\<rparr>,
        trace = [IsValid 0]\<rparr>)"
    by (simp add: reconnect_if_invalid_def ros_step_defs sim_defs Let_def)
  have failed: "reconnect_if_invalid (sim_ros False) (holding 0)
      (sim_state [] [''E''] [stale_conn]) =
     Returns () (holding 1,
       \<lparr>world = \<lparr>advertised = [''E''], upcoming = [], conns = [stale_conn, stale_conn]\<rparr>,
        trace = [IsValid 0, GetService 0,
          Warn ''Lost connection to service :E. Trying to reconnect and waiting until available.'',
          ServiceClient ''/robot'' ''E'' True, WaitForExistence 1 (Duration (- 1)),
          Warn ''Restored connection to E'']\<rparr>)"
    by (simp add: reconnect_if_invalid_def ros_step_defs sim_defs Let_def)
  from call_returns_the_exchange_flag [OF ok, of request41]
    call_returns_the_exchange_flag [OF failed, of request41] ok failed
  show ?thesis
    by (simp add: sim_defs)
qed

section \<open>\<open>shutdown\<close>\<close>

text \<open>
  Claim C8.  \<^verbatim>\<open>shutdown\<close> invokes \<^verbatim>\<open>shutdown\<close> on the held connection and nothing
  else: the client object, with its node handle, is the same afterwards, and it
  always returns.  Where the transport's shutdown is idempotent, a second
  \<^verbatim>\<open>shutdown\<close> right after the first (so, on a connection already released)
  leaves the client object and the middleware state as the first left them; it
  only adds its own invocation to the record.
\<close>

theorem shutdown_twice:
  assumes "shutdown_idempotent R"
  shows "shutdown R self e =
           (self, \<lparr>world = ros_shutdown R (client self) (world e),
                   trace = trace e @ [Shutdown (client self)]\<rparr>) \<and>
         (case shutdown R self e of
            (self1, e1) \<Rightarrow>
              shutdown R self1 e1 = (self1, e1\<lparr>trace := trace e1 @ [Shutdown (client self1)]\<rparr>))"
  using assms
  by (simp add: shutdown_def client_shutdown_def shutdown_idempotent_def)

theorem shutdown_twice_witness:
  "shutdown_idempotent (sim_ros False) \<and>
   shutdown (sim_ros False) (holding 0) (sim_state [''E''] [] [live_conn]) =
     (holding 0, \<lparr>world = \<lparr>advertised = [''E''], upcoming = [], conns = [stale_conn]\<rparr>,
                  trace = [Shutdown 0]\<rparr>) \<and>
   shutdown (sim_ros False) (holding 0)
       \<lparr>world = \<lparr>advertised = [''E''], upcoming = [], conns = [stale_conn]\<rparr>,
        trace = [Shutdown 0]\<rparr> =
     (holding 0, \<lparr>world = \<lparr>advertised = [''E''], upcoming = [], conns = [stale_conn]\<rparr>,
                  trace = [Shutdown 0, Shutdown 0]\<rparr>)"
  using shutdown_twice [OF sim_shutdown_idempotent [of False], where self = "holding 0"
      and e = "sim_state [''E''] [] [live_conn]"] sim_shutdown_idempotent [of False]
  by (auto simp add: sim_defs)

section \<open>The constructor\<close>

text \<open>
  Claim C9.  The constructor asks the node handle it is given for a persistent
  connection to the given name, at once, and holds what it gets together with
  the handle; it does this one thing, waits for nothing and always returns.  So
  it succeeds while the endpoint is not reachable, and the connection it holds
  may then report invalid: on the simulated transport, constructing a client
  for \<open>E\<close> while the server of \<open>E\<close> is down gives a client whose connection
  reports invalid.
\<close>

theorem constructor_opens_at_once:
  "PersistentServiceClient R nh0 service_name e =
     (\<lparr>client = fst (ros_serviceClient R nh0 service_name True (world e)), nh = nh0\<rparr>,
      \<lparr>world = snd (ros_serviceClient R nh0 service_name True (world e)),
       trace = trace e @ [ServiceClient nh0 service_name True]\<rparr>) \<and>
   waited (trace (snd (PersistentServiceClient R nh0 service_name e))) = waited (trace e) \<and>
   PersistentServiceClient (sim_ros False) ''/robot'' ''E'' (sim_state [] [''E''] []) =
     (holding 0, \<lparr>world = \<lparr>advertised = [], upcoming = [''E''], conns = [stale_conn]\<rparr>,
                  trace = [ServiceClient ''/robot'' ''E'' True]\<rparr>) \<and>
   \<not> ros_isValid (sim_ros False) (client (holding 0))
       \<lparr>advertised = [], upcoming = [''E''], conns = [stale_conn]\<rparr>"
  by (simp add: PersistentServiceClient_def nh_serviceClient_def split_beta waited_append
      sim_defs)

text \<open>While the server is up, the constructed client holds a valid connection.\<close>

theorem constructor_opens_at_once_witness:
  "PersistentServiceClient (sim_ros True) ''/robot'' ''E'' (sim_state [''E''] [] []) =
     (holding 0, \<lparr>world = \<lparr>advertised = [''E''], upcoming = [], conns = [live_conn]\<rparr>,
                  trace = [ServiceClient ''/robot'' ''E'' True]\<rparr>) \<and>
   ros_isValid (sim_ros True) (client (holding 0))
       \<lparr>advertised = [''E''], upcoming = [], conns = [live_conn]\<rparr>"
  using constructor_opens_at_once [of "sim_ros True" "''/robot''" "''E''" "sim_state [''E''] [] []"]
  by (simp add: sim_defs)

section \<open>The name the reconnect path opens\<close>

text \<open>
  Claim C10.  A client object is its held connection and its node handle, and
  nothing more.  On the reconnect path the one connection \<^verbatim>\<open>call\<close> opens is a
  persistent one, from the object's node handle, under the name the held
  (invalid) connection reports at that moment, whatever that name is; it
  becomes the held connection.
\<close>

theorem reconnect_uses_reported_name:
  assumes "\<not> ros_isValid R (client self) (world e)"
  shows "self = \<lparr>client = client self, nh = nh self\<rparr> \<and>
         opened (trace (snd (state_of (call R service self e)))) =
           opened (trace e) @ [(nh self, ros_getService R (client self) (world e), True)] \<and>
         client (fst (state_of (call R service self e))) =
           fst (ros_serviceClient R (nh self) (ros_getService R (client self) (world e)) True
                  (world e)) \<and>
         nh (fst (state_of (call R service self e))) = nh self"
  using assms
  by (simp add: call_def reconnect_invalid client_call_def Let_def opened_append
      split: option.splits)

text \<open>
  A client holding a connection that was never opened: the name accessor
  reports the empty name, and the replacement is opened under the empty name.
\<close>

theorem reconnect_uses_reported_name_witness:
  "\<not> ros_isValid (sim_ros True) (client (holding 0)) (world (sim_state [] [] [])) \<and>
   ros_getService (sim_ros True) (client (holding 0)) (world (sim_state [] [] [])) = [] \<and>
   opened (trace (snd (state_of (call (sim_ros True) request41 (holding 0) (sim_state [] [] []))))) =
     [(''/robot'', [], True)] \<and>
   client (fst (state_of (call (sim_ros True) request41 (holding 0) (sim_state [] [] [])))) = 0 \<and>
   ros_getService (sim_ros True) 0
     (world (snd (state_of (call (sim_ros True) request41 (holding 0) (sim_state [] [] []))))) = []"
proof -
  have invalid: "\<not> ros_isValid (sim_ros True) (client (holding 0)) (world (sim_state [] [] []))"
    by (simp add: sim_defs)
  have blocked: "call (sim_ros True) request41 (holding 0) (sim_state [] [] []) =
    Blocks (holding 0,
      \<lparr>world = \<lparr>advertised = [], upcoming = [],
          conns = [\<lparr>conn_name = [], conn_persistent = True, conn_linked = False\<rparr>]\<rparr>,
       trace = [IsValid 0, GetService 0,
          Warn ''Lost connection to service :. Trying to reconnect and waiting until available.'',
          ServiceClient ''/robot'' [] True, WaitForExistence 0 (Duration (- 1))]\<rparr>)"
    by (simp add: call_def reconnect_if_invalid_def ros_step_defs sim_defs Let_def)
  from reconnect_uses_reported_name [OF invalid, of request41] invalid
  show ?thesis
    unfolding blocked by (simp add: sim_defs)
qed

end
